theory Spec2Isabelle
  imports Complex_Main "HOL-Library.Sublist"
begin

section \<open>The chat relay service of main.py\<close>

text \<open>
  The service is one FastAPI application with three routes. Each handler is embedded as
  a function of the process-wide state (the environment and the shared model handle) that
  returns what the handler returns or raises and the calls it sent to the remote model.
  Every \<open>print\<close> of a handler is a step that can raise, since it sits inside a
  \<open>try\<close> whose \<open>except\<close> clauses decide the response. The client library and the
  web framework are not part of the repository: the remote model is a method of the
  handle, taken as a parameter, and the framework is the small function \<open>serve\<close>
  below.
\<close>

subsection \<open>Strings: \<open>str.lower\<close> and the \<open>in\<close> operator\<close>

text \<open>
  A Python \<open>str\<close> is carried as a \<open>string\<close>, the bytes of its UTF-8 encoding.
  \<open>lower\<close> maps the letters A to Z to a to z and leaves every other byte as it is.
  Python also lowers letters outside ASCII, but the handlers only search the lowered text
  for the ASCII words quota, rate and rate limit. Two code points outside ASCII lower to
  text with an ASCII letter: U+212A to k, which is in none of the words, and U+0130 to i
  followed by a combining dot, which no occurrence of rate limit can contain. So the
  searches below answer as Python's do.
\<close>

definition char_lower :: "char \<Rightarrow> char" where
  "char_lower c =
     (let n = (of_char c :: nat)
      in if 65 \<le> n \<and> n \<le> 90 then char_of (n + 32) else c)"

definition lower :: "string \<Rightarrow> string" where
  "lower s = map char_lower s"

text \<open>\<open>str_in needle hay\<close> is Python's \<open>needle in hay\<close>: a contiguous occurrence.\<close>

fun str_in :: "string \<Rightarrow> string \<Rightarrow> bool" where
  "str_in needle [] = (needle = [])"
| "str_in needle (c # cs) = (prefix needle (c # cs) \<or> str_in needle cs)"

subsection \<open>Exceptions\<close>

text \<open>
  An exception is known to the handlers by its class, which decides the \<open>except\<close>
  clause it matches, and by its text \<open>str(e)\<close>. \<open>OtherException n\<close> is a subclass of
  \<open>Exception\<close> named \<open>n\<close> that is unrelated to the classes the handlers name, and
  \<open>Subclass c n\<close> is a subclass of \<open>c\<close> named \<open>n\<close>. \<open>is_a c k\<close> is
  \<open>isinstance\<close>: an \<open>except k\<close> clause catches the classes \<open>c\<close> with \<open>is_a c k\<close>.
  FastAPI's \<open>HTTPException\<close> is raised by the handlers only, and is a constructor of
  \<open>raised\<close>.
\<close>

datatype exc_class =
  ResourceExhausted | TimeoutError | ValueError | OtherException string
  | Subclass exc_class string

record exc =
  cls :: exc_class
  str :: string

datatype raised = HTTPException nat string | Exc exc

fun type_name :: "exc_class \<Rightarrow> string" where
  "type_name ResourceExhausted = ''ResourceExhausted''"
| "type_name TimeoutError = ''TimeoutError''"
| "type_name ValueError = ''ValueError''"
| "type_name (OtherException n) = n"
| "type_name (Subclass c n) = n"

fun is_a :: "exc_class \<Rightarrow> exc_class \<Rightarrow> bool" where
  "is_a (Subclass c n) k = (Subclass c n = k \<or> is_a c k)"
| "is_a c k = (c = k)"

subsection \<open>The model handle and the process-wide state\<close>

text \<open>
  \<open>llm.invoke(prompt, timeout=t)\<close> returns a message whose \<open>content\<close> is the model's
  text, a \<open>str\<close>, or raises.
\<close>

datatype invoke_result = Content string | Raises exc

record model_handle =
  model :: string
  invoke :: "string \<Rightarrow> nat \<Rightarrow> invoke_result"

text \<open>
  What the handlers read of the process: the environment, the handle, the standard
  output and the traceback formatter. \<open>stdout s line\<close> is \<open>print(line)\<close>: \<open>None\<close>
  when the line is written, \<open>Some e\<close> when writing it raises \<open>e\<close> (the stream cannot
  encode the text, or is closed). \<open>format_exc s e\<close> is the text that
  \<open>traceback.format_exc()\<close> gives while \<open>e\<close> is being handled.
\<close>

record proc_state =
  environ :: "string \<rightharpoonup> string"
  llm :: model_handle
  stdout :: "string \<Rightarrow> exc option"
  format_exc :: "exc \<Rightarrow> string"

text \<open>What running a handler gives: its outcome and the prompts sent to the remote
  model, each with its timeout.\<close>

record 'a run =
  outcome :: 'a
  calls :: "(string \<times> nat) list"

subsection \<open>Startup\<close>




subsection \<open>Request and response models, JSON bodies\<close>

record chat_request =
  message :: string

record chat_response =
  reply :: string

datatype jval = Str string | Num real

type_synonym jdict = "(string \<times> jval) list"

record http_response =
  status_code :: nat
  content :: jdict

subsection \<open>The handlers\<close>

definition read_root :: "proc_state \<Rightarrow> (raised + jdict) run" where
  "read_root s =
     \<lparr>outcome = Inr [(''status'', Str ''Server is running'')], calls = []\<rparr>"

text \<open>
  \<open>api_status\<close>: \<open>rt\<close> is the value of \<open>round(response_time, 2)\<close>, a float computed
  from two readings of the clock. The local variable \<open>status_code\<close> is kept as the first
  component of \<open>api_status_except\<close>, since the source assigns it; the dictionary that the
  handler returns is the second. This handler prints nothing.
\<close>

definition api_status_except :: "model_handle \<Rightarrow> exc \<Rightarrow> nat \<times> jdict" where
  "api_status_except h e =
     (let error_message = str e;
          status_code = (500::nat);
          (status_message, status_code) =
             (if str_in ''quota'' (lower error_message) \<or> str_in ''rate'' (lower error_message)
              then (''quota_exceeded'', 429)
              else (''error'', status_code))
      in (status_code,
          [(''status'', Str status_message),
           (''error'', Str error_message),
           (''model'', Str (model h)),
           (''api_tier'', Str ''Free Tier (limited daily and per-minute quota)''),
           (''quota_info'', Str ''Check https://ai.google.dev/pricing for quota details'')]))"

definition api_status :: "proc_state \<Rightarrow> real \<Rightarrow> (raised + jdict) run" where
  "api_status s rt =
     \<lparr>outcome =
        (case invoke (llm s) ''Hello'' 10 of
           Content result \<Rightarrow>
             Inr [(''status'', Str ''operational''),
                  (''model'', Str (model (llm s))),
                  (''response_time_seconds'', Num rt),
                  (''message'', Str ''API is working correctly''),
                  (''api_tier'', Str ''Free Tier (limited daily and per-minute quota)''),
                  (''quota_info'', Str ''Check https://ai.google.dev/pricing for quota details'')]
         | Raises e \<Rightarrow> Inr (snd (api_status_except (llm s) e))),
      calls = [(''Hello'', 10)]\<rparr>"

text \<open>\<open>not os.environ.get(k)\<close>: the variable is unset or set to the empty string.\<close>

definition not_environ_get :: "(string \<rightharpoonup> string) \<Rightarrow> string \<Rightarrow> bool" where
  "not_environ_get env k = (case env k of None \<Rightarrow> True | Some v \<Rightarrow> v = [])"

text \<open>
  The body of the inner \<open>try\<close> of \<open>chat_with_ai\<close> (lines 125 to 131): the call, the
  print of the reply, the response. Either of the first two can raise.
\<close>

definition chat_inner_body :: "proc_state \<Rightarrow> chat_request \<Rightarrow> exc + chat_response" where
  "chat_inner_body s request =
     (case invoke (llm s) (message request) 30 of
        Raises e \<Rightarrow> Inl e
      | Content ai_reply \<Rightarrow>
          (case stdout s (''AI reply: '' @ ai_reply) of
             Some e \<Rightarrow> Inl e
           | None \<Rightarrow> Inr \<lparr>reply = ai_reply\<rparr>))"

text \<open>
  The \<open>except\<close> clauses of the inner \<open>try\<close> (lines 132 to 153), in the order of the
  source. An exception raised by a print inside a clause leaves the inner \<open>try\<close>.
\<close>

definition chat_inner_except :: "proc_state \<Rightarrow> exc \<Rightarrow> raised" where
  "chat_inner_except s e =
     (if is_a (cls e) ResourceExhausted then
        (case stdout s (''Quota exceeded: '' @ str e) of
           Some e' \<Rightarrow> Exc e'
         | None \<Rightarrow>
             (if str_in ''rate limit'' (lower (str e))
              then HTTPException 429 ''Rate limit exceeded. Please try again in a few seconds.''
              else HTTPException 429 ''Google API quota exceeded. Your daily limit may have been reached. Please try again later or consider upgrading your API tier.''))
      else if is_a (cls e) TimeoutError then
        (case stdout s ''Request timed out'' of
           Some e' \<Rightarrow> Exc e'
         | None \<Rightarrow>
             HTTPException 504 ''Request to Google API timed out. The service might be experiencing high load.'')
      else Exc e)"

definition chat_inner_try :: "proc_state \<Rightarrow> chat_request \<Rightarrow> raised + chat_response" where
  "chat_inner_try s request =
     (case chat_inner_body s request of
        Inr response \<Rightarrow> Inr response
      | Inl e \<Rightarrow> Inl (chat_inner_except s e))"

text \<open>
  The body of the outer \<open>try\<close> (lines 115 to 153): the print of the message, the
  credential check with its own print, then the inner \<open>try\<close>.
\<close>

definition chat_outer_body :: "proc_state \<Rightarrow> chat_request \<Rightarrow> (raised + chat_response) run" where
  "chat_outer_body s request =
     (case stdout s (''Received message: '' @ message request) of
        Some e \<Rightarrow> \<lparr>outcome = Inl (Exc e), calls = []\<rparr>
      | None \<Rightarrow>
          (if not_environ_get (environ s) ''GOOGLE_API_KEY''
           then (case stdout s ''ERROR: Google API Key is missing'' of
                   Some e \<Rightarrow> \<lparr>outcome = Inl (Exc e), calls = []\<rparr>
                 | None \<Rightarrow>
                     \<lparr>outcome = Inl (HTTPException 500 ''API key configuration error''),
                      calls = []\<rparr>)
           else \<lparr>outcome = chat_inner_try s request, calls = [(message request, 30)]\<rparr>))"

text \<open>
  The outer \<open>except\<close> clauses (lines 154 to 163): an \<open>HTTPException\<close> is re-raised; any
  other exception is printed with its traceback and replaced by an \<open>HTTPException\<close>,
  unless one of the two prints raises, in which case that exception leaves the handler.
\<close>

definition chat_outer_except :: "proc_state \<Rightarrow> raised + chat_response \<Rightarrow> raised + chat_response" where
  "chat_outer_except s r =
     (case r of
        Inl (HTTPException c d) \<Rightarrow> Inl (HTTPException c d)
      | Inl (Exc e) \<Rightarrow>
          (case stdout s (''ERROR in chat endpoint: '' @ str e) of
             Some e' \<Rightarrow> Inl (Exc e')
           | None \<Rightarrow>
          (case stdout s (''Traceback: '' @ format_exc s e) of
             Some e' \<Rightarrow> Inl (Exc e')
           | None \<Rightarrow> Inl (HTTPException 500 (''An error occurred: '' @ str e))))
      | Inr v \<Rightarrow> Inr v)"

definition chat_with_ai :: "proc_state \<Rightarrow> chat_request \<Rightarrow> (raised + chat_response) run" where
  "chat_with_ai s request =
     \<lparr>outcome = chat_outer_except s (outcome (chat_outer_body s request)),
      calls = calls (chat_outer_body s request)\<rparr>"

subsection \<open>The HTTP layer\<close>

text \<open>
  The handler registered for \<open>Exception\<close> (lines 27 to 36) prints the exception and
  its traceback, then returns the 500 response; a print that raises makes the handler
  raise.
\<close>

definition global_exception_handler :: "proc_state \<Rightarrow> exc \<Rightarrow> exc + http_response" where
  "global_exception_handler s e =
     (case stdout s (''GLOBAL ERROR: '' @ str e) of
        Some e' \<Rightarrow> Inl e'
      | None \<Rightarrow>
     (case stdout s (''Error details: '' @ format_exc s e) of
        Some e' \<Rightarrow> Inl e'
      | None \<Rightarrow>
          Inr \<lparr>status_code = 500,
               content = [(''error'', Str (str e)), (''type'', Str (type_name (cls e)))]\<rparr>))"

text \<open>
  What the server sends when an exception leaves the application: status 500 with the
  plain text Internal Server Error. The body is not a JSON object, so \<open>content\<close> is
  empty.
\<close>

definition internal_server_error :: http_response where
  "internal_server_error = \<lparr>status_code = 500, content = []\<rparr>"

text \<open>
  What FastAPI sends for a route declared without a status code: 200 with the returned
  value, the status and detail of a raised \<open>HTTPException\<close>, and for any other
  exception what the handler registered for \<open>Exception\<close> returns.
\<close>

definition serve :: "proc_state \<Rightarrow> ('a \<Rightarrow> jdict) \<Rightarrow> raised + 'a \<Rightarrow> http_response" where
  "serve s to_json r =
     (case r of
        Inr v \<Rightarrow> \<lparr>status_code = 200, content = to_json v\<rparr>
      | Inl (HTTPException c d) \<Rightarrow> \<lparr>status_code = c, content = [(''detail'', Str d)]\<rparr>
      | Inl (Exc e) \<Rightarrow>
          (case global_exception_handler s e of
             Inr response \<Rightarrow> response
           | Inl e' \<Rightarrow> internal_server_error))"

definition ChatResponse_json :: "chat_response \<Rightarrow> jdict" where
  "ChatResponse_json r = [(''reply'', Str (reply r))]"

definition get_root :: "proc_state \<Rightarrow> http_response" where
  "get_root s = serve s id (outcome (read_root s))"

definition get_api_status :: "proc_state \<Rightarrow> real \<Rightarrow> http_response" where
  "get_api_status s rt = serve s id (outcome (api_status s rt))"

definition post_chat :: "proc_state \<Rightarrow> chat_request \<Rightarrow> http_response" where
  "post_chat s request = serve s ChatResponse_json (outcome (chat_with_ai s request))"

subsection \<open>Test doubles\<close>

text \<open>
  A handle whose \<open>invoke\<close> answers every prompt with the same result, and a process
  state built on it whose environment holds at most the credential variable.
  \<open>fake_state\<close> has a standard output that writes every line; \<open>ascii_state\<close> has one
  with the ASCII encoding, which raises \<open>UnicodeEncodeError\<close> on a line with a byte
  outside ASCII. \<open>fake_make_llm\<close> is a constructor that, like the client library's,
  raises when the credential is unset or empty. They give the concrete inputs at which
  the theorems below are instantiated.
\<close>

definition fake_invoke :: "invoke_result \<Rightarrow> string \<Rightarrow> nat \<Rightarrow> invoke_result" where
  "fake_invoke r prompt timeout = r"

definition fake_llm :: "invoke_result \<Rightarrow> model_handle" where
  "fake_llm r = \<lparr>model = ''models/gemini-1.5-flash'', invoke = fake_invoke r\<rparr>"

definition fake_env :: "string option \<Rightarrow> (string \<rightharpoonup> string)" where
  "fake_env key = Map.empty(''GOOGLE_API_KEY'' := key)"

definition fake_stdout :: "string \<Rightarrow> exc option" where
  "fake_stdout line = None"

fun ascii_only :: "string \<Rightarrow> bool" where
  "ascii_only [] = True"
| "ascii_only (c # cs) = ((of_char c :: nat) < 128 \<and> ascii_only cs)"

definition ascii_stdout :: "string \<Rightarrow> exc option" where
  "ascii_stdout line =
     (if ascii_only line then None
      else Some \<lparr>cls = Subclass ValueError ''UnicodeEncodeError'',
                 str = ''ascii codec cannot encode character: ordinal not in range(128)''\<rparr>)"

definition fake_format_exc :: "exc \<Rightarrow> string" where
  "fake_format_exc e =
     ''Traceback (most recent call last): '' @ type_name (cls e) @ '': '' @ str e"

definition fake_state :: "string option \<Rightarrow> invoke_result \<Rightarrow> proc_state" where
  "fake_state key r =
     \<lparr>environ = fake_env key, llm = fake_llm r,
      stdout = fake_stdout, format_exc = fake_format_exc\<rparr>"

definition ascii_state :: "string option \<Rightarrow> invoke_result \<Rightarrow> proc_state" where
  "ascii_state key r =
     \<lparr>environ = fake_env key, llm = fake_llm r,
      stdout = ascii_stdout, format_exc = fake_format_exc\<rparr>"


section \<open>Properties\<close>

subsection \<open>Auxiliary facts\<close>

lemma str_in_sublist: "str_in needle hay \<longleftrightarrow> sublist needle hay"
  by (induction hay) (auto simp: sublist_Cons_right)

lemma str_in_occurrence: "str_in needle hay \<longleftrightarrow> (\<exists>before rest. hay = before @ needle @ rest)"
  by (simp add: str_in_sublist sublist_def)

lemma str_in_trans: "str_in a b \<Longrightarrow> str_in b c \<Longrightarrow> str_in a c"
proof -
  assume "str_in a b" and "str_in b c"
  then obtain p1 r1 p2 r2 where "b = p1 @ a @ r1" and "c = p2 @ b @ r2"
    by (auto simp: str_in_occurrence)
  then have "c = (p2 @ p1) @ a @ (r1 @ r2)" by simp
  then show "str_in a c" unfolding str_in_occurrence by blast
qed

lemma rate_limit_has_rate: "str_in ''rate limit'' t \<Longrightarrow> str_in ''rate'' t"
proof -
  have "str_in ''rate'' ''rate limit''" by simp
  then show "str_in ''rate limit'' t \<Longrightarrow> str_in ''rate'' t" by (rule str_in_trans)
qed

lemma is_a_subclass: "is_a c k \<Longrightarrow> is_a (Subclass c n) k"
  by simp

lemma socket_timeout_is_timeout: "is_a (Subclass TimeoutError ''timeout'') TimeoutError"
  by simp

lemma deadline_exceeded_is_no_timeout:
  "\<not> is_a (OtherException ''DeadlineExceeded'') TimeoutError"
  by simp

lemma chat_calls:
  "calls (chat_with_ai s request) =
     (if stdout s (''Received message: '' @ message request) = None
         \<and> \<not> not_environ_get (environ s) ''GOOGLE_API_KEY''
      then [(message request, 30)] else [])"
  by (simp add: chat_with_ai_def chat_outer_body_def split: option.split)

lemma chat_forwarded_iff:
  "calls (chat_with_ai s request) = [(message request, 30)] \<longleftrightarrow>
     stdout s (''Received message: '' @ message request) = None
     \<and> \<not> not_environ_get (environ s) ''GOOGLE_API_KEY''"
  by (simp add: chat_calls)

lemma chat_outcome_forwarded:
  assumes "calls (chat_with_ai s request) = [(message request, 30)]"
  shows "outcome (chat_with_ai s request) = chat_outer_except s (chat_inner_try s request)"
proof -
  from assms have "stdout s (''Received message: '' @ message request) = None"
    and "\<not> not_environ_get (environ s) ''GOOGLE_API_KEY''"
    by (simp_all add: chat_forwarded_iff)
  then show ?thesis
    by (simp add: chat_with_ai_def chat_outer_body_def)
qed

lemma chat_not_forwarded_without_credential:
  "not_environ_get (environ s) ''GOOGLE_API_KEY'' \<Longrightarrow> calls (chat_with_ai s request) = []"
  by (simp add: chat_calls)

lemma fake_forwarded:
  "calls (chat_with_ai (fake_state (Some (c # cs)) r) request) = [(message request, 30)]"
  by (simp add: chat_calls fake_state_def fake_env_def fake_stdout_def not_environ_get_def)

lemma fake_invoke_llm: "invoke (llm (fake_state key r)) prompt t = r"
  by (simp add: fake_state_def fake_llm_def fake_invoke_def)

lemma fake_stdout_state: "stdout (fake_state key r) line = None"
  by (simp add: fake_state_def fake_stdout_def)

lemma ascii_invoke_llm: "invoke (llm (ascii_state key r)) prompt t = r"
  by (simp add: ascii_state_def fake_llm_def fake_invoke_def)

lemma ascii_stdout_state:
  "stdout (ascii_state key r) line =
     (if ascii_only line then None
      else Some \<lparr>cls = Subclass ValueError ''UnicodeEncodeError'',
                 str = ''ascii codec cannot encode character: ordinal not in range(128)''\<rparr>)"
  by (simp add: ascii_state_def ascii_stdout_def)

lemma ascii_only_append: "ascii_only (a @ b) \<longleftrightarrow> ascii_only a \<and> ascii_only b"
  by (induction a) auto

lemma ascii_forwarded:
  "ascii_only (message request) \<Longrightarrow>
     calls (chat_with_ai (ascii_state (Some (c # cs)) r) request) = [(message request, 30)]"
proof -
  assume m: "ascii_only (message request)"
  have "ascii_only ''Received message: ''" by code_simp
  with m have "ascii_only (''Received message: '' @ message request)"
    unfolding ascii_only_append by simp
  then have "stdout (ascii_state (Some (c # cs)) r) (''Received message: '' @ message request) = None"
    unfolding ascii_stdout_state by simp
  moreover have "\<not> not_environ_get (environ (ascii_state (Some (c # cs)) r)) ''GOOGLE_API_KEY''"
    by (simp add: ascii_state_def fake_env_def not_environ_get_def)
  ultimately show ?thesis
    unfolding chat_forwarded_iff by simp
qed

lemma api_status_report:
  "invoke (llm s) ''Hello'' 10 = Raises e \<Longrightarrow>
     map_of (content (get_api_status s rt)) ''status'' =
       Some (Str (if str_in ''quota'' (lower (str e)) \<or> str_in ''rate'' (lower (str e))
                  then ''quota_exceeded'' else ''error''))"
  by (simp add: get_api_status_def api_status_def serve_def api_status_except_def Let_def)

lemma api_status_always_200: "status_code (get_api_status s rt) = 200"
  by (simp add: get_api_status_def api_status_def serve_def split: invoke_result.split)

lemma api_status_local_status_code:
  "fst (api_status_except h e) =
     (if str_in ''quota'' (lower (str e)) \<or> str_in ''rate'' (lower (str e)) then 429 else 500)"
  by (simp add: api_status_except_def Let_def)

lemma serve_exception_500: "status_code (serve s to_json (Inl (Exc e))) = 500"
  by (simp add: serve_def global_exception_handler_def internal_server_error_def
      split: option.split)

lemma chat_outer_except_generic:
  "stdout s (''ERROR in chat endpoint: '' @ str e) = None \<Longrightarrow>
   stdout s (''Traceback: '' @ format_exc s e) = None \<Longrightarrow>
     chat_outer_except s (Inl (Exc e)) = Inl (HTTPException 500 (''An error occurred: '' @ str e))"
  by (simp add: chat_outer_except_def)

lemma chat_outer_except_status_500:
  "status_code (serve s to_json (chat_outer_except s (Inl (Exc e)))) = 500"
  by (simp add: chat_outer_except_def serve_def global_exception_handler_def
      internal_server_error_def split: option.split)

lemma chat_inner_try_raises:
  "invoke (llm s) (message request) 30 = Raises e \<Longrightarrow>
     chat_inner_try s request = Inl (chat_inner_except s e)"
  by (simp add: chat_inner_try_def chat_inner_body_def)

lemma chat_inner_try_content:
  "invoke (llm s) (message request) 30 = Content t \<Longrightarrow>
     chat_inner_try s request =
       (case stdout s (''AI reply: '' @ t) of
          Some e \<Rightarrow> Inl (chat_inner_except s e)
        | None \<Rightarrow> Inr \<lparr>reply = t\<rparr>)"
  by (simp add: chat_inner_try_def chat_inner_body_def split: option.split)

lemma unicode_error_generic:
  "chat_inner_except s
     \<lparr>cls = Subclass ValueError ''UnicodeEncodeError'', str = t\<rparr>
   = Exc \<lparr>cls = Subclass ValueError ''UnicodeEncodeError'', str = t\<rparr>"
  by (simp add: chat_inner_except_def)

lemma ascii_state_reports_unicode_error:
  "chat_outer_except (ascii_state key r)
     (Inl (Exc \<lparr>cls = Subclass ValueError ''UnicodeEncodeError'',
                str = ''ascii codec cannot encode character: ordinal not in range(128)''\<rparr>))
   = Inl (HTTPException 500
        ''An error occurred: ascii codec cannot encode character: ordinal not in range(128)'')"
proof -
  have a: "ascii_only (''ERROR in chat endpoint: ''
       @ ''ascii codec cannot encode character: ordinal not in range(128)'')"
    by code_simp
  have b: "ascii_only (''Traceback: '' @ fake_format_exc
       \<lparr>cls = Subclass ValueError ''UnicodeEncodeError'',
        str = ''ascii codec cannot encode character: ordinal not in range(128)''\<rparr>)"
    by code_simp
  have f: "format_exc (ascii_state key r) = fake_format_exc"
    by (simp add: ascii_state_def)
  show ?thesis
    using a b chat_outer_except_generic [of "ascii_state key r"
        "\<lparr>cls = Subclass ValueError ''UnicodeEncodeError'',
          str = ''ascii codec cannot encode character: ordinal not in range(128)''\<rparr>"]
    by (simp add: ascii_stdout_state f)
qed

lemma chat_empty_credential_500:
  "environ s ''GOOGLE_API_KEY'' = Some [] \<Longrightarrow>
   stdout s (''Received message: '' @ message request) = None \<Longrightarrow>
   stdout s ''ERROR: Google API Key is missing'' = None \<Longrightarrow>
     post_chat s request =
       \<lparr>status_code = 500, content = [(''detail'', Str ''API key configuration error'')]\<rparr>
     \<and> calls (chat_with_ai s request) = []"
  by (simp add: post_chat_def serve_def chat_with_ai_def chat_outer_body_def
      not_environ_get_def chat_outer_except_def)

lemma chat_builtin_timeout_504:
  assumes "calls (chat_with_ai s request) = [(message request, 30)]"
    and "invoke (llm s) (message request) 30 = Raises e"
    and "\<not> is_a (cls e) ResourceExhausted" and "is_a (cls e) TimeoutError"
    and "stdout s ''Request timed out'' = None"
  shows "post_chat s request =
           \<lparr>status_code = 504,
            content = [(''detail'', Str ''Request to Google API timed out. The service might be experiencing high load.'')]\<rparr>"
proof -
  have "chat_inner_try s request = Inl (chat_inner_except s e)"
    using assms(2) by (rule chat_inner_try_raises)
  then have "outcome (chat_with_ai s request) = chat_outer_except s (Inl (chat_inner_except s e))"
    using assms(1) chat_outcome_forwarded [of s request] by simp
  then have "outcome (chat_with_ai s request) =
      Inl (HTTPException 504 ''Request to Google API timed out. The service might be experiencing high load.'')"
    using assms(3,4,5) by (simp add: chat_inner_except_def chat_outer_except_def)
  then show ?thesis
    by (simp add: post_chat_def serve_def)
qed

lemma chat_generic_failure:
  assumes "calls (chat_with_ai s request) = [(message request, 30)]"
    and "invoke (llm s) (message request) 30 = Raises e"
    and "\<not> is_a (cls e) ResourceExhausted" and "\<not> is_a (cls e) TimeoutError"
  shows "outcome (chat_with_ai s request) = chat_outer_except s (Inl (Exc e))"
proof -
  have "chat_inner_try s request = Inl (chat_inner_except s e)"
    using assms(2) by (rule chat_inner_try_raises)
  then have "outcome (chat_with_ai s request) = chat_outer_except s (Inl (chat_inner_except s e))"
    using assms(1) chat_outcome_forwarded [of s request] by simp
  then show ?thesis
    using assms(3,4) by (simp add: chat_inner_except_def)
qed



subsection \<open>The status probe\<close>

text \<open>
  Claim C1. A probe failure whose text contains quota or rate in any letter case is
  reported with status \<open>quota_exceeded\<close>, and the claim has the HTTP layer serve that
  report with status 429. The handler computes 429 in its local \<open>status_code\<close> and
  then returns a plain dictionary, which the framework serves with 200. Evaluated at a
  resource-exhaustion failure with the provider's usual text: the report says
  \<open>quota_exceeded\<close>, the response status is 200, the unused local is 429.
\<close>

theorem api_status_quota_served_200:
  "map_of (content (get_api_status
       (fake_state (Some ''key'')
          (Raises \<lparr>cls = ResourceExhausted,
                   str = ''429 Resource has been exhausted (e.g. check quota).''\<rparr>)) 0))
     ''status'' = Some (Str ''quota_exceeded'')
   \<and> status_code (get_api_status
       (fake_state (Some ''key'')
          (Raises \<lparr>cls = ResourceExhausted,
                   str = ''429 Resource has been exhausted (e.g. check quota).''\<rparr>)) 0) = 200
   \<and> fst (api_status_except
          (llm (fake_state (Some ''key'')
             (Raises \<lparr>cls = ResourceExhausted,
                      str = ''429 Resource has been exhausted (e.g. check quota).''\<rparr>)))
          \<lparr>cls = ResourceExhausted,
           str = ''429 Resource has been exhausted (e.g. check quota).''\<rparr>) = 429"
proof -
  have q: "str_in ''quota'' (lower ''429 Resource has been exhausted (e.g. check quota).'')"
    by code_simp
  show ?thesis
    using q
    by (simp add: api_status_report fake_invoke_llm api_status_always_200
        api_status_local_status_code)
qed

text \<open>
  The same holds on the other branch: a failure without either word is reported with
  status \<open>error\<close> and served with 200 as well.
\<close>

lemma api_status_error_served_200:
  "map_of (content (get_api_status
       (fake_state (Some ''key'')
          (Raises \<lparr>cls = OtherException ''ConnectionError'', str = ''connection refused''\<rparr>)) 0))
     ''status'' = Some (Str ''error'')
   \<and> status_code (get_api_status
       (fake_state (Some ''key'')
          (Raises \<lparr>cls = OtherException ''ConnectionError'', str = ''connection refused''\<rparr>)) 0) = 200"
proof -
  have q: "\<not> str_in ''quota'' (lower ''connection refused'')"
     "\<not> str_in ''rate'' (lower ''connection refused'')"
    by code_simp+
  show ?thesis
    using q
    by (simp add: api_status_report fake_invoke_llm api_status_always_200)
qed

subsection \<open>Chat forward: success\<close>

text \<open>
  Claim C2, as stated: whenever the remote call succeeds with text \<open>t\<close>, the response
  is 200 with reply \<open>t\<close>. Line 128 prints the reply inside the inner \<open>try\<close> before
  the response is built. On a standard output with the ASCII encoding, a reply with a
  letter outside ASCII (here e with an acute accent, two bytes in UTF-8) makes that print
  raise; the outer \<open>except\<close> turns the exception into the generic 500 response,
  although the remote call was made and succeeded.
\<close>

theorem chat_unprintable_reply_500:
  "calls (chat_with_ai (ascii_state (Some ''key'') (Content [CHR 0xC3, CHR 0xA9]))
       \<lparr>message = ''Hello''\<rparr>) = [(''Hello'', 30)]
   \<and> invoke (llm (ascii_state (Some ''key'') (Content [CHR 0xC3, CHR 0xA9]))) ''Hello'' 30
       = Content [CHR 0xC3, CHR 0xA9]
   \<and> post_chat (ascii_state (Some ''key'') (Content [CHR 0xC3, CHR 0xA9]))
       \<lparr>message = ''Hello''\<rparr>
     = \<lparr>status_code = 500,
        content = [(''detail'', Str ''An error occurred: ascii codec cannot encode character: ordinal not in range(128)'')]\<rparr>"
proof -
  have m: "ascii_only (message \<lparr>message = ''Hello''\<rparr>)" by code_simp
  have c: "calls (chat_with_ai (ascii_state (Some ''key'') (Content [CHR 0xC3, CHR 0xA9]))
       \<lparr>message = ''Hello''\<rparr>) = [(message \<lparr>message = ''Hello''\<rparr>, 30)]"
    using m by (rule ascii_forwarded)
  have p: "\<not> ascii_only (''AI reply: '' @ [CHR 0xC3, CHR 0xA9])" by code_simp
  have "chat_inner_try (ascii_state (Some ''key'') (Content [CHR 0xC3, CHR 0xA9]))
       \<lparr>message = ''Hello''\<rparr>
     = Inl (Exc \<lparr>cls = Subclass ValueError ''UnicodeEncodeError'',
                 str = ''ascii codec cannot encode character: ordinal not in range(128)''\<rparr>)"
    using p
    by (simp add: chat_inner_try_content [where t = "[CHR 0xC3, CHR 0xA9]"] ascii_invoke_llm
        ascii_stdout_state unicode_error_generic)
  then have "outcome (chat_with_ai (ascii_state (Some ''key'') (Content [CHR 0xC3, CHR 0xA9]))
       \<lparr>message = ''Hello''\<rparr>)
     = Inl (HTTPException 500
        ''An error occurred: ascii codec cannot encode character: ordinal not in range(128)'')"
    using chat_outcome_forwarded [OF c] by (simp add: ascii_state_reports_unicode_error)
  then show ?thesis
    using c by (simp add: post_chat_def serve_def ascii_invoke_llm)
qed

text \<open>
  Claim C2, amended: for every non-empty message, if the remote model call is made and
  succeeds with text \<open>t\<close>, and the line "AI reply: " followed by \<open>t\<close> is written to
  the standard output without error, chat forward returns \<open>ChatResponse(reply=t)\<close>,
  served with status 200 and the reply equal to \<open>t\<close>, unmodified.
\<close>

theorem chat_success_reply_unmodified:
  assumes "m \<noteq> []"
    and "calls (chat_with_ai s \<lparr>message = m\<rparr>) = [(m, 30)]"
    and "invoke (llm s) m 30 = Content t"
    and "stdout s (''AI reply: '' @ t) = None"
  shows "outcome (chat_with_ai s \<lparr>message = m\<rparr>) = Inr \<lparr>reply = t\<rparr>
       \<and> post_chat s \<lparr>message = m\<rparr> = \<lparr>status_code = 200, content = [(''reply'', Str t)]\<rparr>"
proof -
  have "chat_inner_try s \<lparr>message = m\<rparr> = Inr \<lparr>reply = t\<rparr>"
    using assms(3,4) by (simp add: chat_inner_try_content [where t = t])
  then have out: "outcome (chat_with_ai s \<lparr>message = m\<rparr>) = Inr \<lparr>reply = t\<rparr>"
    using assms(2) chat_outcome_forwarded [of s "\<lparr>message = m\<rparr>"]
    by (simp add: chat_outer_except_def)
  then show ?thesis
    by (simp add: post_chat_def serve_def ChatResponse_json_def)
qed

text \<open>
  The amended theorem at the message Hello, answered with Hi there! by the remote
  model.
\<close>

theorem chat_success_reply_unmodified_witness:
  "''Hello'' \<noteq> []
   \<and> calls (chat_with_ai (fake_state (Some ''key'') (Content ''Hi there!'')) \<lparr>message = ''Hello''\<rparr>)
       = [(''Hello'', 30)]
   \<and> invoke (llm (fake_state (Some ''key'') (Content ''Hi there!''))) ''Hello'' 30 = Content ''Hi there!''
   \<and> stdout (fake_state (Some ''key'') (Content ''Hi there!'')) (''AI reply: '' @ ''Hi there!'') = None
   \<and> outcome (chat_with_ai (fake_state (Some ''key'') (Content ''Hi there!'')) \<lparr>message = ''Hello''\<rparr>)
       = Inr \<lparr>reply = ''Hi there!''\<rparr>
   \<and> post_chat (fake_state (Some ''key'') (Content ''Hi there!'')) \<lparr>message = ''Hello''\<rparr>
       = \<lparr>status_code = 200, content = [(''reply'', Str ''Hi there!'')]\<rparr>"
proof -
  have h1: "''Hello'' \<noteq> []" by simp
  have h2: "calls (chat_with_ai (fake_state (Some ''key'') (Content ''Hi there!'')) \<lparr>message = ''Hello''\<rparr>)
       = [(''Hello'', 30)]"
    using fake_forwarded [of "CHR ''k''" "''ey''" "Content ''Hi there!''" "\<lparr>message = ''Hello''\<rparr>"] by simp
  have h3: "invoke (llm (fake_state (Some ''key'') (Content ''Hi there!''))) ''Hello'' 30 = Content ''Hi there!''"
    by (rule fake_invoke_llm)
  have h4: "stdout (fake_state (Some ''key'') (Content ''Hi there!'')) (''AI reply: '' @ ''Hi there!'') = None"
    by (rule fake_stdout_state)
  from chat_success_reply_unmodified [OF h1 h2 h3 h4] h1 h2 h3 h4 show ?thesis by simp
qed

subsection \<open>Chat forward: quota and rate-limit failures\<close>




subsection \<open>Chat forward: credential missing at request time\<close>

text \<open>
  Claim C4, as stated: every request handled without a credential is answered with the
  500 configuration error. Line 115 prints the message inside the outer \<open>try\<close>,
  before the credential is checked. A message that the standard output cannot encode
  makes that print raise, and the response is the generic 500 error with the text of
  the encoding failure, not the configuration error.
\<close>

theorem chat_unprintable_message_no_credential:
  "environ (ascii_state None (Content ''Hi there!'')) ''GOOGLE_API_KEY'' = None
   \<and> post_chat (ascii_state None (Content ''Hi there!'')) \<lparr>message = [CHR 0xC3, CHR 0xA9]\<rparr>
     = \<lparr>status_code = 500,
        content = [(''detail'', Str ''An error occurred: ascii codec cannot encode character: ordinal not in range(128)'')]\<rparr>"
proof -
  have p: "\<not> ascii_only (''Received message: '' @ [CHR 0xC3, CHR 0xA9])" by code_simp
  have "outcome (chat_outer_body (ascii_state None (Content ''Hi there!''))
       \<lparr>message = [CHR 0xC3, CHR 0xA9]\<rparr>)
     = Inl (Exc \<lparr>cls = Subclass ValueError ''UnicodeEncodeError'',
                 str = ''ascii codec cannot encode character: ordinal not in range(128)''\<rparr>)"
    using p by (simp add: chat_outer_body_def ascii_stdout_state)
  then have "outcome (chat_with_ai (ascii_state None (Content ''Hi there!''))
       \<lparr>message = [CHR 0xC3, CHR 0xA9]\<rparr>)
     = Inl (HTTPException 500
        ''An error occurred: ascii codec cannot encode character: ordinal not in range(128)'')"
    by (simp add: chat_with_ai_def ascii_state_reports_unicode_error)
  then show ?thesis
    by (simp add: post_chat_def serve_def ascii_state_def fake_env_def)
qed

text \<open>
  Claim C4, amended: if the credential is absent from the environment when a chat
  request is handled, nothing is sent to the remote model; and when the two lines printed
  before the raise ("Received message: " followed by the message, and "ERROR: Google API
  Key is missing") are written without error, the handler raises
  \<open>HTTPException(500, "API key configuration error")\<close>, served as a 500 response.
\<close>

theorem chat_missing_credential_500:
  assumes "environ s ''GOOGLE_API_KEY'' = None"
  shows "calls (chat_with_ai s request) = []
       \<and> (stdout s (''Received message: '' @ message request) = None
            \<and> stdout s ''ERROR: Google API Key is missing'' = None \<longrightarrow>
          outcome (chat_with_ai s request) =
            Inl (HTTPException 500 ''API key configuration error'')
          \<and> post_chat s request =
            \<lparr>status_code = 500,
             content = [(''detail'', Str ''API key configuration error'')]\<rparr>)"
  using assms
  by (simp add: post_chat_def serve_def chat_with_ai_def chat_outer_body_def
      not_environ_get_def chat_outer_except_def split: option.split)

text \<open>
  The amended theorem at a state whose environment has no credential.
\<close>

theorem chat_missing_credential_500_witness:
  "environ (fake_state None (Content ''Hi there!'')) ''GOOGLE_API_KEY'' = None
   \<and> stdout (fake_state None (Content ''Hi there!'')) (''Received message: '' @ ''Hello'') = None
   \<and> stdout (fake_state None (Content ''Hi there!'')) ''ERROR: Google API Key is missing'' = None
   \<and> outcome (chat_with_ai (fake_state None (Content ''Hi there!'')) \<lparr>message = ''Hello''\<rparr>)
       = Inl (HTTPException 500 ''API key configuration error'')
   \<and> post_chat (fake_state None (Content ''Hi there!'')) \<lparr>message = ''Hello''\<rparr> =
       \<lparr>status_code = 500, content = [(''detail'', Str ''API key configuration error'')]\<rparr>
   \<and> calls (chat_with_ai (fake_state None (Content ''Hi there!'')) \<lparr>message = ''Hello''\<rparr>) = []"
proof -
  have h: "environ (fake_state None (Content ''Hi there!'')) ''GOOGLE_API_KEY'' = None"
    by (simp add: fake_state_def fake_env_def)
  have p: "stdout (fake_state None (Content ''Hi there!'')) line = None" for line
    by (rule fake_stdout_state)
  from chat_missing_credential_500 [OF h, of "\<lparr>message = ''Hello''\<rparr>"] h p
  show ?thesis by simp
qed

subsection \<open>Chat forward: timeout\<close>

text \<open>
  Claim C5. The claim has every timeout of the remote call answered with status 504
  and the high-load message. The handler passes \<open>timeout=30\<close> to the client and
  catches the built-in \<open>TimeoutError\<close> only. When the bound passes, the client raises
  its own \<open>DeadlineExceeded\<close>, which is not a subclass of \<open>TimeoutError\<close>: it
  falls through to the outer \<open>except\<close> and is answered with the generic 500 error.
  Evaluated at that failure, and next to it at a built-in \<open>TimeoutError\<close>, which does
  get the 504 response.
\<close>

theorem chat_deadline_exceeded_500:
  "calls (chat_with_ai (fake_state (Some ''key'')
         (Raises \<lparr>cls = OtherException ''DeadlineExceeded'', str = ''504 Deadline Exceeded''\<rparr>))
       \<lparr>message = ''Hello''\<rparr>) = [(''Hello'', 30)]
   \<and> post_chat (fake_state (Some ''key'')
         (Raises \<lparr>cls = OtherException ''DeadlineExceeded'', str = ''504 Deadline Exceeded''\<rparr>))
       \<lparr>message = ''Hello''\<rparr>
     = \<lparr>status_code = 500,
        content = [(''detail'', Str ''An error occurred: 504 Deadline Exceeded'')]\<rparr>
   \<and> post_chat (fake_state (Some ''key'')
         (Raises \<lparr>cls = TimeoutError, str = ''timed out''\<rparr>))
       \<lparr>message = ''Hello''\<rparr>
     = \<lparr>status_code = 504,
        content = [(''detail'', Str ''Request to Google API timed out. The service might be experiencing high load.'')]\<rparr>"
proof -
  have c: "calls (chat_with_ai (fake_state (Some ''key'') r) \<lparr>message = ''Hello''\<rparr>)
      = [(message \<lparr>message = ''Hello''\<rparr>, 30)]" for r
    by (rule fake_forwarded)
  have i: "invoke (llm (fake_state (Some ''key'') r)) (message \<lparr>message = ''Hello''\<rparr>) 30 = r" for r
    by (rule fake_invoke_llm)
  have p: "stdout (fake_state (Some ''key'') r) line = None" for r line
    by (rule fake_stdout_state)
  have "outcome (chat_with_ai (fake_state (Some ''key'')
         (Raises \<lparr>cls = OtherException ''DeadlineExceeded'', str = ''504 Deadline Exceeded''\<rparr>))
       \<lparr>message = ''Hello''\<rparr>)
     = Inl (HTTPException 500 ''An error occurred: 504 Deadline Exceeded'')"
    using chat_generic_failure [OF c i,
        of "\<lparr>cls = OtherException ''DeadlineExceeded'', str = ''504 Deadline Exceeded''\<rparr>"]
    by (simp add: chat_outer_except_generic p)
  then have a: "post_chat (fake_state (Some ''key'')
         (Raises \<lparr>cls = OtherException ''DeadlineExceeded'', str = ''504 Deadline Exceeded''\<rparr>))
       \<lparr>message = ''Hello''\<rparr>
     = \<lparr>status_code = 500,
        content = [(''detail'', Str ''An error occurred: 504 Deadline Exceeded'')]\<rparr>"
    by (simp add: post_chat_def serve_def)
  have b: "post_chat (fake_state (Some ''key'')
         (Raises \<lparr>cls = TimeoutError, str = ''timed out''\<rparr>))
       \<lparr>message = ''Hello''\<rparr>
     = \<lparr>status_code = 504,
        content = [(''detail'', Str ''Request to Google API timed out. The service might be experiencing high load.'')]\<rparr>"
    using chat_builtin_timeout_504 [OF c i _ _ p, of "\<lparr>cls = TimeoutError, str = ''timed out''\<rparr>"]
    by simp
  from a b c show ?thesis by simp
qed

subsection \<open>Chat forward: any other failure\<close>




subsection \<open>Startup\<close>



subsection \<open>The request model\<close>

text \<open>
  Claim C8, as stated: a request carrying an empty message is not a valid
  \<open>ChatRequest\<close> and is not processed as one. The class declares \<open>message: str\<close>
  and nothing more, and the handler does not look at the length of the message: the
  empty message is sent to the remote model and its answer is returned with status 200.
\<close>

theorem empty_message_is_forwarded:
  "calls (chat_with_ai (fake_state (Some ''key'') (Content ''Hi there!'')) \<lparr>message = []\<rparr>)
     = [([], 30)]
   \<and> post_chat (fake_state (Some ''key'') (Content ''Hi there!'')) \<lparr>message = []\<rparr>
     = \<lparr>status_code = 200, content = [(''reply'', Str ''Hi there!'')]\<rparr>"
proof -
  have c: "calls (chat_with_ai (fake_state (Some ''key'') (Content ''Hi there!'')) \<lparr>message = []\<rparr>)
     = [(message \<lparr>message = []\<rparr>, 30)]"
    by (rule fake_forwarded)
  have "chat_inner_try (fake_state (Some ''key'') (Content ''Hi there!'')) \<lparr>message = []\<rparr>
     = Inr \<lparr>reply = ''Hi there!''\<rparr>"
    by (simp add: chat_inner_try_content [where t = "''Hi there!''"] fake_invoke_llm
        fake_stdout_state)
  with chat_outcome_forwarded [OF c] c show ?thesis
    by (simp add: post_chat_def serve_def chat_outer_except_def ChatResponse_json_def)
qed

text \<open>
  Claim C8, amended: the input of chat forward is a \<open>ChatRequest\<close> whose message is
  a string, and a request carrying the empty message is processed as one: with the
  credential present it is forwarded to the remote model with timeout 30, and when the
  model answers \<open>t\<close> the response is 200 with reply \<open>t\<close> (the two log lines of
  that path being written without error).
\<close>

theorem chat_accepts_empty_message:
  assumes "\<not> not_environ_get (environ s) ''GOOGLE_API_KEY''"
    and "stdout s ''Received message: '' = None"
    and "invoke (llm s) [] 30 = Content t"
    and "stdout s (''AI reply: '' @ t) = None"
  shows "calls (chat_with_ai s \<lparr>message = []\<rparr>) = [([], 30)]
       \<and> post_chat s \<lparr>message = []\<rparr> = \<lparr>status_code = 200, content = [(''reply'', Str t)]\<rparr>"
proof -
  have c: "calls (chat_with_ai s \<lparr>message = []\<rparr>) = [(message \<lparr>message = []\<rparr>, 30)]"
    using assms(1,2) by (simp add: chat_calls)
  have "chat_inner_try s \<lparr>message = []\<rparr> = Inr \<lparr>reply = t\<rparr>"
    using assms(3,4) by (simp add: chat_inner_try_content [where t = t])
  with chat_outcome_forwarded [OF c] c show ?thesis
    by (simp add: post_chat_def serve_def chat_outer_except_def ChatResponse_json_def)
qed

text \<open>
  The amended theorem at a model that answers Hi there!.
\<close>

theorem chat_accepts_empty_message_witness:
  "\<not> not_environ_get (environ (fake_state (Some ''key'') (Content ''Hi there!''))) ''GOOGLE_API_KEY''
   \<and> stdout (fake_state (Some ''key'') (Content ''Hi there!'')) ''Received message: '' = None
   \<and> invoke (llm (fake_state (Some ''key'') (Content ''Hi there!''))) [] 30 = Content ''Hi there!''
   \<and> stdout (fake_state (Some ''key'') (Content ''Hi there!'')) (''AI reply: '' @ ''Hi there!'') = None
   \<and> calls (chat_with_ai (fake_state (Some ''key'') (Content ''Hi there!'')) \<lparr>message = []\<rparr>)
       = [([], 30)]
   \<and> post_chat (fake_state (Some ''key'') (Content ''Hi there!'')) \<lparr>message = []\<rparr>
       = \<lparr>status_code = 200, content = [(''reply'', Str ''Hi there!'')]\<rparr>"
proof -
  have h: "\<not> not_environ_get (environ (fake_state (Some ''key'') (Content ''Hi there!'')))
             ''GOOGLE_API_KEY''"
    by (simp add: fake_state_def fake_env_def not_environ_get_def)
  have p: "stdout (fake_state (Some ''key'') (Content ''Hi there!'')) line = None" for line
    by (rule fake_stdout_state)
  have i: "invoke (llm (fake_state (Some ''key'') (Content ''Hi there!''))) [] 30 = Content ''Hi there!''"
    by (rule fake_invoke_llm)
  from chat_accepts_empty_message [OF h p i p] h p i show ?thesis by simp
qed

subsection \<open>The two classifications\<close>

text \<open>
  Claim C10, as stated: in chat forward a failure of any type other than resource
  exhaustion whose text contains quota, rate or rate limit is returned as the generic
  500 error. A \<open>TimeoutError\<close> is of another type, and with rate limit in its text it
  is answered with 504.
\<close>

theorem timeout_with_rate_text_is_504:
  "\<not> is_a (cls \<lparr>cls = TimeoutError, str = ''Timed out waiting for rate limit window''\<rparr>)
        ResourceExhausted
   \<and> str_in ''rate limit'' (lower (str \<lparr>cls = TimeoutError, str = ''Timed out waiting for rate limit window''\<rparr>))
   \<and> calls (chat_with_ai (fake_state (Some ''key'')
         (Raises \<lparr>cls = TimeoutError, str = ''Timed out waiting for rate limit window''\<rparr>))
       \<lparr>message = ''Hello''\<rparr>) = [(''Hello'', 30)]
   \<and> post_chat (fake_state (Some ''key'')
         (Raises \<lparr>cls = TimeoutError, str = ''Timed out waiting for rate limit window''\<rparr>))
       \<lparr>message = ''Hello''\<rparr>
     = \<lparr>status_code = 504,
        content = [(''detail'', Str ''Request to Google API timed out. The service might be experiencing high load.'')]\<rparr>"
proof -
  have r: "str_in ''rate limit'' (lower ''Timed out waiting for rate limit window'')"
    by code_simp
  have c: "calls (chat_with_ai (fake_state (Some ''key'') r) \<lparr>message = ''Hello''\<rparr>)
      = [(message \<lparr>message = ''Hello''\<rparr>, 30)]" for r
    by (rule fake_forwarded)
  have i: "invoke (llm (fake_state (Some ''key'') r)) (message \<lparr>message = ''Hello''\<rparr>) 30 = r" for r
    by (rule fake_invoke_llm)
  have p: "stdout (fake_state (Some ''key'') r) line = None" for r line
    by (rule fake_stdout_state)
  from chat_builtin_timeout_504 [OF c i _ _ p,
      of "\<lparr>cls = TimeoutError, str = ''Timed out waiting for rate limit window''\<rparr>"] r c
  show ?thesis by simp
qed

text \<open>
  Claim C10, amended: a failure that is neither a resource exhaustion nor a
  \<open>TimeoutError\<close> and whose text contains quota, rate or rate limit (in any letter
  case) is answered by chat forward with status 500, on the generic error path (with the
  detail "An error occurred: " followed by the text when the two diagnostic lines are
  written), while the status probe reports a failure with the same text as
  \<open>quota_exceeded\<close>.
\<close>

theorem same_text_classified_differently:
  assumes "\<not> is_a (cls e) ResourceExhausted" and "\<not> is_a (cls e) TimeoutError"
    and "str_in ''quota'' (lower (str e)) \<or> str_in ''rate'' (lower (str e))
         \<or> str_in ''rate limit'' (lower (str e))"
    and "calls (chat_with_ai s request) = [(message request, 30)]"
    and "invoke (llm s) (message request) 30 = Raises e"
    and "invoke (llm s2) ''Hello'' 10 = Raises e2" and "str e2 = str e"
  shows "status_code (post_chat s request) = 500
       \<and> (stdout s (''ERROR in chat endpoint: '' @ str e) = None \<longrightarrow>
          stdout s (''Traceback: '' @ format_exc s e) = None \<longrightarrow>
            post_chat s request =
              \<lparr>status_code = 500,
               content = [(''detail'', Str (''An error occurred: '' @ str e))]\<rparr>)
       \<and> map_of (content (get_api_status s2 rt)) ''status'' = Some (Str ''quota_exceeded'')"
proof -
  have o: "outcome (chat_with_ai s request) = chat_outer_except s (Inl (Exc e))"
    using chat_generic_failure [OF assms(4,5,1,2)] .
  then have a: "status_code (post_chat s request) = 500"
    by (simp add: post_chat_def chat_outer_except_status_500)
  have b: "stdout s (''ERROR in chat endpoint: '' @ str e) = None \<longrightarrow>
          stdout s (''Traceback: '' @ format_exc s e) = None \<longrightarrow>
            post_chat s request =
              \<lparr>status_code = 500,
               content = [(''detail'', Str (''An error occurred: '' @ str e))]\<rparr>"
    using o by (simp add: post_chat_def serve_def chat_outer_except_generic)
  have "str_in ''quota'' (lower (str e2)) \<or> str_in ''rate'' (lower (str e2))"
    using assms(3,7) rate_limit_has_rate by auto
  then have c: "map_of (content (get_api_status s2 rt)) ''status'' = Some (Str ''quota_exceeded'')"
    using api_status_report [OF assms(6), of rt] by simp
  from a b c show ?thesis by simp
qed

text \<open>
  The amended theorem at a \<open>ValueError\<close> with the text Quota exceeded.
\<close>

theorem same_text_classified_differently_witness:
  "\<not> is_a (cls \<lparr>cls = ValueError, str = ''Quota exceeded''\<rparr>) ResourceExhausted
   \<and> \<not> is_a (cls \<lparr>cls = ValueError, str = ''Quota exceeded''\<rparr>) TimeoutError
   \<and> str_in ''quota'' (lower (str \<lparr>cls = ValueError, str = ''Quota exceeded''\<rparr>))
   \<and> calls (chat_with_ai (fake_state (Some ''key'')
         (Raises \<lparr>cls = ValueError, str = ''Quota exceeded''\<rparr>))
       \<lparr>message = ''Hello''\<rparr>) = [(''Hello'', 30)]
   \<and> post_chat (fake_state (Some ''key'')
         (Raises \<lparr>cls = ValueError, str = ''Quota exceeded''\<rparr>))
       \<lparr>message = ''Hello''\<rparr>
     = \<lparr>status_code = 500, content = [(''detail'', Str ''An error occurred: Quota exceeded'')]\<rparr>
   \<and> map_of (content (get_api_status (fake_state (Some ''key'')
         (Raises \<lparr>cls = ValueError, str = ''Quota exceeded''\<rparr>)) 0))
       ''status'' = Some (Str ''quota_exceeded'')"
proof -
  have q: "str_in ''quota'' (lower ''Quota exceeded'')"
    by code_simp
  have k1: "\<not> is_a (cls \<lparr>cls = ValueError, str = t\<rparr>) ResourceExhausted" for t
    by simp
  have k2: "\<not> is_a (cls \<lparr>cls = ValueError, str = t\<rparr>) TimeoutError" for t
    by simp
  have k3: "str_in ''quota'' (lower (str \<lparr>cls = ValueError, str = ''Quota exceeded''\<rparr>))
     \<or> str_in ''rate'' (lower (str \<lparr>cls = ValueError, str = ''Quota exceeded''\<rparr>))
     \<or> str_in ''rate limit'' (lower (str \<lparr>cls = ValueError, str = ''Quota exceeded''\<rparr>))"
    using q by simp
  have c: "calls (chat_with_ai (fake_state (Some ''key'') r) \<lparr>message = ''Hello''\<rparr>)
      = [(message \<lparr>message = ''Hello''\<rparr>, 30)]" for r
    by (rule fake_forwarded)
  have i: "invoke (llm (fake_state (Some ''key'') r)) p t = r" for r p t
    by (rule fake_invoke_llm)
  have p: "stdout (fake_state (Some ''key'') r) line = None" for r line
    by (rule fake_stdout_state)
  from same_text_classified_differently [OF k1 k2 k3 c i i refl, of 0] q c p
  show ?thesis by simp
qed

end
